theory Spec2Isabelle
  imports Complex_Main
begin

section \<open>Decimal values and Python errors\<close>

text \<open>
  The pricing code computes with Python's \<^verbatim>\<open>decimal.Decimal\<close>. A finite Decimal denotes a
  rational number, and the model works on that number: \<^typ>\<open>rat\<close> stands for Decimal, and
  \<open>+\<close>, \<open>-\<close>, \<open>*\<close> and the comparisons are the exact operations on it. The rounding of a result
  to the precision of the ambient decimal context (28 significant digits unless the caller
  changes it) and the special values NaN and Infinity are outside the model; every statement
  below is a statement about the exact values.

  What the model does keep is every way the code can fail. A \<^verbatim>\<open>raise ValueError(msg)\<close> is
  the value \<open>Inl (ValueError msg)\<close>; Decimal division by zero raises
  \<^verbatim>\<open>decimal.DivisionByZero\<close>, or \<^verbatim>\<open>decimal.InvalidOperation\<close> for \<open>0 / 0\<close>, where
  HOL's own \<open>x / 0\<close> would silently be \<open>0\<close>; a dictionary lookup of a missing key raises
  \<^verbatim>\<open>KeyError\<close>.
\<close>

datatype error =
    ValueError string
  | DivisionByZero
  | InvalidOperation
  | KeyError string

definition dec_div :: "rat \<Rightarrow> rat \<Rightarrow> error + rat" where
  "dec_div x y =
     (if y = 0 then (if x = 0 then Inl InvalidOperation else Inl DivisionByZero)
      else Inr (x / y))"

text \<open>
  Sequencing: an exception raised by a step ends the computation and is its result.
\<close>

definition and_then :: "error + 'a \<Rightarrow> ('a \<Rightarrow> error + 'b) \<Rightarrow> error + 'b" where
  "and_then m f = (case m of Inl e \<Rightarrow> Inl e | Inr v \<Rightarrow> f v)"

text \<open>
  The three error kinds of the pricing engine are \<^verbatim>\<open>ValueError\<close>s told apart by their
  message.
\<close>

definition InvalidReserves :: error where
  "InvalidReserves = ValueError ''Pool reserves must be positive''"

definition ExceedsReserve :: error where
  "ExceedsReserve = ValueError ''Cannot swap more than pool reserve''"


section \<open>src/utils/amm\_pricing.py\<close>


text \<open>
  \<^verbatim>\<open>calculate_constant_product_input\<close>: the guard on \<open>amount_out\<close>, then the comparison
  with \<open>reserve_out\<close>, then the guard on the reserves.
\<close>

definition calculate_constant_product_input :: "rat \<Rightarrow> rat \<Rightarrow> rat \<Rightarrow> rat \<Rightarrow> error + rat" where
  "calculate_constant_product_input amount_out reserve_in reserve_out fee_rate =
     (if amount_out \<le> 0 then Inr 0
      else if amount_out \<ge> reserve_out then Inl ExceedsReserve
      else if reserve_in \<le> 0 \<or> reserve_out \<le> 0 then Inl InvalidReserves
      else
        let numerator = reserve_in * amount_out;
            denominator = (reserve_out - amount_out) * (1 - fee_rate)
        in dec_div numerator denominator)"


record SwapQuote =
  amount_in :: rat
  amount_out :: rat
  effective_price :: rat
  price_impact :: rat
  fee_amount :: rat



section \<open>src/nonkyc\_client/pricing.py\<close>



section \<open>run\_cosa\_arb.py\<close>

text \<open>
  The configuration is a dictionary read from a YAML file; the record holds the keys the
  evaluation of a cycle reads. \<^verbatim>\<open>Decimal(str(config[k]))\<close> is the decimal the file gives
  for \<open>k\<close>. \<open>prices\<close> is the dictionary from a pair's name to its last price.
\<close>

record config =
  pair_ab :: string
  pair_bc :: string
  pair_ac :: string
  trade_amount_a :: rat
  fee_rate :: rat
  min_profitability :: rat

record rates =
  step1 :: rat
  step2 :: rat
  step3 :: rat

definition lookup :: "(string \<rightharpoonup> rat) \<Rightarrow> string \<Rightarrow> error + rat" where
  "lookup prices pair =
     (case prices pair of None \<Rightarrow> Inl (KeyError pair) | Some price \<Rightarrow> Inr price)"

text \<open>
  \<^verbatim>\<open>calculate_conversion_rates\<close>: the first and third rates are the prices themselves, the
  second is the inverse of the price of \<open>pair_bc\<close>.
\<close>

definition calculate_conversion_rates :: "config \<Rightarrow> (string \<rightharpoonup> rat) \<Rightarrow> error + rates" where
  "calculate_conversion_rates config prices =
     and_then (lookup prices (pair_ab config)) (\<lambda>pirate_btc_rate.
     and_then (lookup prices (pair_bc config)) (\<lambda>cosa_btc_price.
     and_then (dec_div 1 cosa_btc_price) (\<lambda>btc_cosa_rate.
     and_then (lookup prices (pair_ac config)) (\<lambda>cosa_pirate_rate.
     Inr \<lparr>step1 = pirate_btc_rate, step2 = btc_cosa_rate, step3 = cosa_pirate_rate\<rparr>))))"

text \<open>
  \<^verbatim>\<open>str.lower\<close> on the ASCII letters, for the answer read from the console.
\<close>

definition lower_char :: "char \<Rightarrow> char" where
  "lower_char c =
     (let n = (of_char c :: nat) in if 65 \<le> n \<and> n \<le> 90 then char_of (n + 32) else c)"

definition lower :: "string \<Rightarrow> string" where
  "lower s = map lower_char s"

text \<open>
  One iteration of the loop of \<^verbatim>\<open>run_arbitrage_bot\<close>, from the point where the three
  prices are in \<open>prices\<close> (line 188) to the end of the \<^verbatim>\<open>if\<close> on the profit (line 229).
  The effects of the iteration are listed in the order they happen: the branch taken on the
  profit, the blocking \<^verbatim>\<open>input("Execute arbitrage? (yes/no): ")\<close>, whose answer is the
  argument \<open>response\<close>, and the call of \<^verbatim>\<open>execute_arbitrage\<close>. The record keeps the local
  variables of the iteration; \<open>amount\<close> is the simulated final amount.
\<close>

datatype event =
    Opportunity_found
  | Input_prompt
  | Execute_arbitrage
  | Skipped_by_user
  | No_opportunity

record cycle =
  start_amount :: rat
  amount :: rat
  profit :: rat
  profit_ratio :: rat
  profit_pct :: rat
  events :: "event list"

definition run_arbitrage_bot_cycle :: "config \<Rightarrow> (string \<rightharpoonup> rat) \<Rightarrow> string \<Rightarrow> error + cycle" where
  "run_arbitrage_bot_cycle config prices response =
     and_then (calculate_conversion_rates config prices) (\<lambda>rates.
     let start_amount = trade_amount_a config;
         fee = fee_rate config;
         amount = start_amount;
         amount = amount * step1 rates;
         amount = amount * (1 - fee);
         amount = amount * step2 rates;
         amount = amount * (1 - fee);
         amount = amount * step3 rates;
         amount = amount * (1 - fee);
         profit = amount - start_amount
     in and_then (dec_div profit start_amount) (\<lambda>profit_ratio.
     let profit_pct = profit_ratio * 100;
         min_profit = min_profitability config
     in Inr \<lparr>start_amount = start_amount,
             amount = amount,
             profit = profit,
             profit_ratio = profit_ratio,
             profit_pct = profit_pct,
             events =
               (if profit_ratio \<ge> min_profit
                then [Opportunity_found, Input_prompt,
                      if lower response \<in> set [''yes'', ''y'']
                      then Execute_arbitrage else Skipped_by_user]
                else [No_opportunity])\<rparr>))"

section \<open>Auxiliary facts\<close>



section \<open>The constant-product formula\<close>








section \<open>Quotes\<close>





section \<open>Rejected inputs\<close>

text \<open>
  Claim C6. \<^verbatim>\<open>calculate_constant_product_input\<close> fails with \<open>ExceedsReserve\<close> for every
  \<open>amount_out > 0\<close> with \<open>amount_out \<ge> reserve_out\<close>, whatever the other arguments; so it
  does for \<open>amount_out = 2001\<close> against \<open>reserve_out = 2000\<close>; and for \<open>amount_out \<le> 0\<close> it
  returns \<open>0\<close> instead of failing.
\<close>

theorem input_exceeds_reserve:
  fixes amount_out reserve_in reserve_out fee_rate :: rat
  shows "(0 < amount_out \<and> reserve_out \<le> amount_out \<longrightarrow>
            calculate_constant_product_input amount_out reserve_in reserve_out fee_rate = Inl ExceedsReserve)
       \<and> calculate_constant_product_input 2001 reserve_in 2000 fee_rate = Inl ExceedsReserve
       \<and> (amount_out \<le> 0 \<longrightarrow>
            calculate_constant_product_input amount_out reserve_in reserve_out fee_rate = Inr 0)"
  by (simp add: calculate_constant_product_input_def)

theorem input_exceeds_reserve_witness:
  "(0::rat) < 2500 \<and> (2000::rat) \<le> 2500
   \<and> calculate_constant_product_input 2500 1000 2000 (3/1000) = Inl ExceedsReserve
   \<and> calculate_constant_product_input 2001 1000 2000 (3/1000) = Inl ExceedsReserve
   \<and> (-1::rat) \<le> 0
   \<and> calculate_constant_product_input (-1) 1000 2000 (3/1000) = Inr 0"
  using input_exceeds_reserve [where amount_out = 2500 and reserve_in = 1000 and reserve_out = 2000 and fee_rate = "3/1000"]
    input_exceeds_reserve [where amount_out = "-1" and reserve_in = 1000 and reserve_out = 2000 and fee_rate = "3/1000"]
  by simp




section \<open>Step rounding\<close>




section \<open>The triangular cycle\<close>



text \<open>
  Claim C9, evaluated on the code. For the prices \<open>ETH/USDT = 100\<close>, \<open>ETH/BTC = 0.1\<close>,
  \<open>BTC/USDT = 1200\<close>, \<open>trade_amount_a = 100\<close>, \<open>fee_rate = 0\<close> and
  \<open>min_profitability = 0.05\<close> the profit ratio is \<open>1199999\<close> and the opportunity branch is
  taken; the iteration then reads the console, whatever the answer will be, and with the
  answer \<open>no\<close> it does not call \<^verbatim>\<open>execute_arbitrage\<close>.
\<close>

theorem profitable_cycle_reads_console:
  "run_arbitrage_bot_cycle
     \<lparr>pair_ab = ''ETH/USDT'', pair_bc = ''ETH/BTC'', pair_ac = ''BTC/USDT'',
      trade_amount_a = 100, fee_rate = 0, min_profitability = 5/100\<rparr>
     [''ETH/USDT'' \<mapsto> 100, ''ETH/BTC'' \<mapsto> 1/10, ''BTC/USDT'' \<mapsto> 1200]
     ''no''
   = Inr \<lparr>start_amount = 100, amount = 120000000, profit = 119999900,
          profit_ratio = 1199999, profit_pct = 119999900,
          events = [Opportunity_found, Input_prompt, Skipped_by_user]\<rparr>
   \<and> (\<forall>response. \<exists>c. run_arbitrage_bot_cycle
     \<lparr>pair_ab = ''ETH/USDT'', pair_bc = ''ETH/BTC'', pair_ac = ''BTC/USDT'',
      trade_amount_a = 100, fee_rate = 0, min_profitability = 5/100\<rparr>
     [''ETH/USDT'' \<mapsto> 100, ''ETH/BTC'' \<mapsto> 1/10, ''BTC/USDT'' \<mapsto> 1200]
     response = Inr c \<and> Input_prompt \<in> set (events c))"
  by (simp add: run_arbitrage_bot_cycle_def calculate_conversion_rates_def lookup_def
      and_then_def dec_div_def Let_def lower_def lower_char_def)

end
